theory Spec2Isabelle
  imports Main "HOL-Library.Word"
begin

section \<open>The validator pool module (sources/validator\_pool.move)\<close>

text \<open>
  The Move module \<^verbatim>\<open>node_validator::validator_pool\<close> is embedded function by function.
  A \<^verbatim>\<open>u64\<close> is a 64-bit word and a \<^verbatim>\<open>u8\<close> an 8-bit word.  Move arithmetic does not wrap:
  an addition or multiplication that leaves the range, a subtraction below zero and a
  division by zero abort the transaction, so every arithmetic operation of the source is a
  checked operation here and its failure is a branch of the model.

  A function that takes \<^verbatim>\<open>&mut\<close> arguments returns their new values.  When it aborts it
  returns the abort together with the values the \<^verbatim>\<open>&mut\<close> arguments hold at the point of
  the abort, so that "nothing was written before the abort" is a statement about the
  function body and not only about the virtual machine, which discards the writes of an
  aborted transaction anyway.
\<close>

subsection \<open>Machine integers\<close>

type_synonym u8 = "8 word"
type_synonym u64 = "64 word"

definition checked_add :: "u64 \<Rightarrow> u64 \<Rightarrow> u64 option" where
  "checked_add a b = (if unat a + unat b < 2 ^ 64 then Some (a + b) else None)"

definition checked_sub :: "u64 \<Rightarrow> u64 \<Rightarrow> u64 option" where
  "checked_sub a b = (if unat b \<le> unat a then Some (a - b) else None)"

definition checked_mul :: "u64 \<Rightarrow> u64 \<Rightarrow> u64 option" where
  "checked_mul a b = (if unat a * unat b < 2 ^ 64 then Some (a * b) else None)"

definition checked_div :: "u64 \<Rightarrow> u64 \<Rightarrow> u64 option" where
  "checked_div a b = (if b = 0 then None else Some (a div b))"

subsection \<open>Constants\<close>

definition COLLECTING :: u8 where "COLLECTING = 0"
definition READY :: u8 where "READY = 1"
definition ACTIVE :: u8 where "ACTIVE = 2"

definition E_UNAUTHORIZED :: u64 where "E_UNAUTHORIZED = 1001"
definition E_INVALID_STATE :: u64 where "E_INVALID_STATE = 1002"
definition E_INSUFFICIENT_STAKE :: u64 where "E_INSUFFICIENT_STAKE = 1003"
definition E_ZERO_AMOUNT :: u64 where "E_ZERO_AMOUNT = 1004"
definition E_WITHDRAWAL_NOT_ALLOWED :: u64 where "E_WITHDRAWAL_NOT_ALLOWED = 1007"

text \<open>
  The ways a call stops: an \<^verbatim>\<open>assert!\<close> of this module with its code, an arithmetic
  error of the virtual machine, and the abort of \<^verbatim>\<open>balance::split\<close> when the balance
  holds less than the amount asked for.
\<close>

datatype error = Abort u64 | ArithmeticError | ENotEnough

subsection \<open>Objects\<close>

text \<open>
  Addresses and object identifiers are opaque in the source; they are natural numbers
  here.  The transaction context gives the sender and makes fresh identifiers:
  \<^verbatim>\<open>object::new\<close> returns an identifier no object has had before and advances the
  context.
\<close>

type_synonym address = nat
type_synonym ID = nat

record TxContext =
  sender :: address
  fresh :: ID

definition object_new :: "TxContext \<Rightarrow> ID \<times> TxContext" where
  "object_new ctx = (fresh ctx, ctx\<lparr>fresh := Suc (fresh ctx)\<rparr>)"

text \<open>
  \<^verbatim>\<open>Balance<IOTA>\<close> is its value.  \<^verbatim>\<open>balance::join\<close> adds (and aborts on overflow),
  \<^verbatim>\<open>balance::split\<close> takes an amount out and aborts when the balance is smaller.  The
  result of \<open>balance_split\<close> is the remaining balance and the balance split off.
\<close>

type_synonym Balance = u64

definition balance_zero :: Balance where
  "balance_zero = 0"

definition balance_join :: "Balance \<Rightarrow> Balance \<Rightarrow> Balance option" where
  "balance_join self b = checked_add self b"

definition balance_split :: "Balance \<Rightarrow> u64 \<Rightarrow> (Balance \<times> Balance) option" where
  "balance_split self v = (if v \<le> self then Some (self - v, v) else None)"

record Coin =
  coin_uid :: ID
  coin_balance :: Balance

definition coin_value :: "Coin \<Rightarrow> u64" where
  "coin_value c = coin_balance c"

definition coin_into_balance :: "Coin \<Rightarrow> Balance" where
  "coin_into_balance c = coin_balance c"

definition coin_from_balance :: "Balance \<Rightarrow> TxContext \<Rightarrow> Coin \<times> TxContext" where
  "coin_from_balance b ctx =
     (let (uid, ctx) = object_new ctx in (\<lparr>coin_uid = uid, coin_balance = b\<rparr>, ctx))"

text \<open>
  The three structs.  The field \<^verbatim>\<open>id\<close> of each is renamed (\<open>pool_uid\<close>,
  \<open>contributor_uid\<close>, \<open>cap_uid\<close>), and the \<^verbatim>\<open>pool_id\<close> of the capability is
  \<open>cap_pool_id\<close>, since record fields share one name space.
\<close>

record ValidatorPool =
  pool_uid :: ID
  required_stake :: u64
  total_stake :: u64
  operator :: address
  operator_reward_pct :: u8
  status :: u8
  accumulated_reward :: u64
  reward_per_stake :: u64
  balance :: Balance

record Contributor =
  contributor_uid :: ID
  pool_id :: ID
  owner :: address
  staked_amount :: u64
  reward_debt :: u64

record OperatorCap =
  cap_uid :: ID
  cap_pool_id :: ID

datatype Event =
    PoolCreated ID address u64 u8
  | StakeDeposited ID address u64 u64 u8
  | PoolActivated ID address u64
  | RewardRecorded ID u64 u64
  | RewardClaimed ID address u64 bool
  | StakeWithdrawn ID address u64 u64

subsection \<open>Public functions\<close>

definition create_pool ::
  "u64 \<Rightarrow> u8 \<Rightarrow> TxContext \<Rightarrow>
     (error \<times> TxContext) + (ValidatorPool \<times> OperatorCap \<times> TxContext \<times> Event list)" where
  "create_pool required_stake' operator_reward_pct' ctx =
     (if \<not> operator_reward_pct' \<le> 100 then Inl (Abort E_ZERO_AMOUNT, ctx)
      else if \<not> 0 < required_stake' then Inl (Abort E_ZERO_AMOUNT, ctx)
      else
        let (pool_id', ctx) = object_new ctx;
            operator' = sender ctx;
            pool = \<lparr>pool_uid = pool_id',
                    required_stake = required_stake',
                    total_stake = 0,
                    operator = operator',
                    operator_reward_pct = operator_reward_pct',
                    status = COLLECTING,
                    accumulated_reward = 0,
                    reward_per_stake = 0,
                    balance = balance_zero\<rparr>;
            (cap_id, ctx) = object_new ctx;
            operator_cap = \<lparr>cap_uid = cap_id, cap_pool_id = pool_id'\<rparr>
        in Inr (pool, operator_cap, ctx,
                [PoolCreated pool_id' operator' required_stake' operator_reward_pct']))"

definition stake ::
  "ValidatorPool \<Rightarrow> Coin \<Rightarrow> TxContext \<Rightarrow>
     (error \<times> ValidatorPool \<times> TxContext) +
     (ValidatorPool \<times> Contributor \<times> TxContext \<times> Event list)" where
  "stake pool stake_coin ctx =
     (if \<not> (status pool = COLLECTING \<or> status pool = READY)
      then Inl (Abort E_INVALID_STATE, pool, ctx)
      else
        let stake_amount = coin_value stake_coin in
        if \<not> 0 < stake_amount then Inl (Abort E_ZERO_AMOUNT, pool, ctx)
        else
          let contributor_addr = sender ctx in
          case balance_join (balance pool) (coin_into_balance stake_coin) of
            None \<Rightarrow> Inl (ArithmeticError, pool, ctx)
          | Some b \<Rightarrow>
              let pool = pool\<lparr>balance := b\<rparr> in
              (case checked_add (total_stake pool) stake_amount of
                None \<Rightarrow> Inl (ArithmeticError, pool, ctx)
              | Some t \<Rightarrow>
                  let pool = pool\<lparr>total_stake := t\<rparr>;
                      pool = (if required_stake pool \<le> total_stake pool \<and> status pool = COLLECTING
                              then pool\<lparr>status := READY\<rparr> else pool);
                      (uid, ctx) = object_new ctx
                  in
                  (case checked_mul (reward_per_stake pool) stake_amount of
                    None \<Rightarrow> Inl (ArithmeticError, pool, ctx)
                  | Some m \<Rightarrow>
                      let contributor = \<lparr>contributor_uid = uid,
                                           pool_id = pool_uid pool,
                                           owner = contributor_addr,
                                           staked_amount = stake_amount,
                                           reward_debt = m div 1000000\<rparr>
                      in Inr (pool, contributor, ctx,
                              [StakeDeposited (pool_uid pool) contributor_addr stake_amount
                                 (total_stake pool) (status pool)]))))"

definition activate_pool ::
  "ValidatorPool \<Rightarrow> OperatorCap \<Rightarrow> TxContext \<Rightarrow>
     (error \<times> ValidatorPool) + (ValidatorPool \<times> Event list)" where
  "activate_pool pool operator_cap ctx =
     (if \<not> status pool = READY then Inl (Abort E_INVALID_STATE, pool)
      else if \<not> sender ctx = operator pool then Inl (Abort E_UNAUTHORIZED, pool)
      else
        let pool = pool\<lparr>status := ACTIVE\<rparr>
        in Inr (pool, [PoolActivated (pool_uid pool) (operator pool) (total_stake pool)]))"

definition record_reward ::
  "ValidatorPool \<Rightarrow> Coin \<Rightarrow> (error \<times> ValidatorPool) + (ValidatorPool \<times> Event list)" where
  "record_reward pool reward_coin =
     (if \<not> status pool = ACTIVE then Inl (Abort E_INVALID_STATE, pool)
      else
        let reward_amount = coin_value reward_coin in
        if \<not> 0 < reward_amount then Inl (Abort E_ZERO_AMOUNT, pool)
        else
          case balance_join (balance pool) (coin_into_balance reward_coin) of
            None \<Rightarrow> Inl (ArithmeticError, pool)
          | Some b \<Rightarrow>
              let pool = pool\<lparr>balance := b\<rparr> in
              (case checked_add (accumulated_reward pool) reward_amount of
                None \<Rightarrow> Inl (ArithmeticError, pool)
              | Some a \<Rightarrow>
                  let pool = pool\<lparr>accumulated_reward := a\<rparr> in
                  if 0 < total_stake pool then
                    (case checked_mul reward_amount 1000000 of
                      None \<Rightarrow> Inl (ArithmeticError, pool)
                    | Some m \<Rightarrow>
                        (case checked_div m (total_stake pool) of
                          None \<Rightarrow> Inl (ArithmeticError, pool)
                        | Some d \<Rightarrow>
                            (case checked_add (reward_per_stake pool) d of
                              None \<Rightarrow> Inl (ArithmeticError, pool)
                            | Some r \<Rightarrow>
                                let pool = pool\<lparr>reward_per_stake := r\<rparr>
                                in Inr (pool, [RewardRecorded (pool_uid pool) reward_amount
                                                 (accumulated_reward pool)]))))
                  else Inr (pool, [RewardRecorded (pool_uid pool) reward_amount
                                     (accumulated_reward pool)])))"

definition claim_reward ::
  "ValidatorPool \<Rightarrow> Contributor \<Rightarrow> TxContext \<Rightarrow>
     (error \<times> ValidatorPool \<times> Contributor \<times> TxContext) +
     (ValidatorPool \<times> Contributor \<times> Coin \<times> TxContext \<times> Event list)" where
  "claim_reward pool contributor ctx =
     (if \<not> status pool = ACTIVE then Inl (Abort E_INVALID_STATE, pool, contributor, ctx)
      else if \<not> owner contributor = sender ctx
      then Inl (Abort E_UNAUTHORIZED, pool, contributor, ctx)
      else
        case checked_mul (staked_amount contributor) (reward_per_stake pool) of
          None \<Rightarrow> Inl (ArithmeticError, pool, contributor, ctx)
        | Some m \<Rightarrow>
            (case checked_sub (m div 1000000) (reward_debt contributor) of
              None \<Rightarrow> Inl (ArithmeticError, pool, contributor, ctx)
            | Some pending_reward \<Rightarrow>
                if 0 < pending_reward then
                  (case checked_sub 100 (ucast (operator_reward_pct pool)) of
                    None \<Rightarrow> Inl (ArithmeticError, pool, contributor, ctx)
                  | Some share \<Rightarrow>
                      (case checked_mul pending_reward share of
                        None \<Rightarrow> Inl (ArithmeticError, pool, contributor, ctx)
                      | Some n \<Rightarrow>
                          let user_reward = n div 100 in
                          (case checked_mul (staked_amount contributor) (reward_per_stake pool) of
                            None \<Rightarrow> Inl (ArithmeticError, pool, contributor, ctx)
                          | Some m' \<Rightarrow>
                              let contributor = contributor\<lparr>reward_debt := m' div 1000000\<rparr> in
                              (case balance_split (balance pool) user_reward of
                                None \<Rightarrow> Inl (ENotEnough, pool, contributor, ctx)
                              | Some (rest, reward_balance) \<Rightarrow>
                                  let pool = pool\<lparr>balance := rest\<rparr>;
                                      (reward_coin, ctx) = coin_from_balance reward_balance ctx
                                  in Inr (pool, contributor, reward_coin, ctx,
                                          [RewardClaimed (pool_uid pool) (owner contributor)
                                             user_reward False])))))
                else
                  let (empty_coin, ctx) = coin_from_balance balance_zero ctx
                  in Inr (pool, contributor, empty_coin, ctx, [])))"

definition claim_operator_reward ::
  "ValidatorPool \<Rightarrow> OperatorCap \<Rightarrow> TxContext \<Rightarrow>
     (error \<times> ValidatorPool \<times> TxContext) + (ValidatorPool \<times> Coin \<times> TxContext \<times> Event list)" where
  "claim_operator_reward pool operator_cap ctx =
     (if \<not> status pool = ACTIVE then Inl (Abort E_INVALID_STATE, pool, ctx)
      else if \<not> sender ctx = operator pool then Inl (Abort E_UNAUTHORIZED, pool, ctx)
      else
        case checked_mul (accumulated_reward pool) (ucast (operator_reward_pct pool)) of
          None \<Rightarrow> Inl (ArithmeticError, pool, ctx)
        | Some n \<Rightarrow>
            let operator_reward = n div 100 in
            if 0 < operator_reward then
              let pool = pool\<lparr>accumulated_reward := 0\<rparr> in
              (case balance_split (balance pool) operator_reward of
                None \<Rightarrow> Inl (ENotEnough, pool, ctx)
              | Some (rest, reward_balance) \<Rightarrow>
                  let pool = pool\<lparr>balance := rest\<rparr>;
                      (reward_coin, ctx) = coin_from_balance reward_balance ctx
                  in Inr (pool, reward_coin, ctx,
                          [RewardClaimed (pool_uid pool) (operator pool) operator_reward True]))
            else
              let (empty_coin, ctx) = coin_from_balance balance_zero ctx
              in Inr (pool, empty_coin, ctx, []))"

definition withdraw_stake ::
  "ValidatorPool \<Rightarrow> Contributor \<Rightarrow> u64 \<Rightarrow> TxContext \<Rightarrow>
     (error \<times> ValidatorPool \<times> Contributor \<times> TxContext) +
     (ValidatorPool \<times> Contributor \<times> Coin \<times> TxContext \<times> Event list)" where
  "withdraw_stake pool contributor amount ctx =
     (if \<not> (status pool = COLLECTING \<or> status pool = READY)
      then Inl (Abort E_WITHDRAWAL_NOT_ALLOWED, pool, contributor, ctx)
      else if \<not> owner contributor = sender ctx
      then Inl (Abort E_UNAUTHORIZED, pool, contributor, ctx)
      else if \<not> 0 < amount then Inl (Abort E_ZERO_AMOUNT, pool, contributor, ctx)
      else if \<not> amount \<le> staked_amount contributor
      then Inl (Abort E_INSUFFICIENT_STAKE, pool, contributor, ctx)
      else
        case checked_sub (staked_amount contributor) amount of
          None \<Rightarrow> Inl (ArithmeticError, pool, contributor, ctx)
        | Some s \<Rightarrow>
            let contributor = contributor\<lparr>staked_amount := s\<rparr> in
            (case checked_sub (total_stake pool) amount of
              None \<Rightarrow> Inl (ArithmeticError, pool, contributor, ctx)
            | Some t \<Rightarrow>
                let pool = pool\<lparr>total_stake := t\<rparr>;
                    pool = (if total_stake pool < required_stake pool \<and> status pool = READY
                            then pool\<lparr>status := COLLECTING\<rparr> else pool)
                in
                (case balance_split (balance pool) amount of
                  None \<Rightarrow> Inl (ENotEnough, pool, contributor, ctx)
                | Some (rest, withdrawn_balance) \<Rightarrow>
                    let pool = pool\<lparr>balance := rest\<rparr>;
                        (withdrawal_coin, ctx) = coin_from_balance withdrawn_balance ctx
                    in Inr (pool, contributor, withdrawal_coin, ctx,
                            [StakeWithdrawn (pool_uid pool) (owner contributor) amount
                               (total_stake pool)]))))"

subsection \<open>View functions\<close>


definition is_ready_for_activation :: "ValidatorPool \<Rightarrow> bool" where
  "is_ready_for_activation pool = (status pool = READY)"


subsection \<open>Entry function without a public counterpart\<close>

definition destroy_empty_contributor :: "Contributor \<Rightarrow> error + unit" where
  "destroy_empty_contributor contributor =
     (if \<not> staked_amount contributor = 0 then Inl (Abort E_INSUFFICIENT_STAKE) else Inr ())"

section \<open>Transactions on the object store\<close>

text \<open>
  The objects of the module live in the ledger's object store, each under its
  identifier.  A transaction calls one entry function on objects of the store; the entry
  functions call the public function of the same purpose and transfer what it returns to
  the sender.  The store keeps the pools, the contributor records and the capabilities;
  coins handed to a sender are logged, as are the events.  Who may pass which object to a
  transaction is the ledger's business and is not restricted here: every object of the
  right type is accepted, as the module itself checks nothing but the fields it reads.
\<close>

record world =
  pools :: "ID \<Rightarrow> ValidatorPool option"
  contributors :: "ID \<Rightarrow> Contributor option"
  caps :: "ID \<Rightarrow> OperatorCap option"
  next_id :: ID
  coins_out :: "(address \<times> Coin) list"
  event_log :: "Event list"

definition empty_world :: world where
  "empty_world =
     \<lparr>pools = (\<lambda>_. None), contributors = (\<lambda>_. None), caps = (\<lambda>_. None),
      next_id = 0, coins_out = [], event_log = []\<rparr>"

text \<open>
  The entry functions, with the sender of the transaction and the identifiers of the
  objects passed.  A coin passed in comes from the sender's wallet, outside the store.
\<close>

datatype tx =
    Create_validator_pool address
  | Create_custom_validator_pool address u64 u8
  | Stake_to_pool address ID Coin
  | Activate_validator_pool address ID ID
  | Record_validator_reward ID Coin
  | Claim_user_reward address ID ID
  | Claim_operator_rewards address ID ID
  | Withdraw_user_stake address ID ID u64
  | Destroy_empty_contributor ID

datatype tx_error = NoSuchObject | Aborted error

definition tx_context :: "world \<Rightarrow> address \<Rightarrow> TxContext" where
  "tx_context w a = \<lparr>sender = a, fresh = next_id w\<rparr>"

definition create_custom_validator_pool ::
  "world \<Rightarrow> address \<Rightarrow> u64 \<Rightarrow> u8 \<Rightarrow> tx_error + world" where
  "create_custom_validator_pool w a required_stake' operator_reward_pct' =
     (case create_pool required_stake' operator_reward_pct' (tx_context w a) of
        Inl (e, _) \<Rightarrow> Inl (Aborted e)
      | Inr (pool, operator_cap, ctx, evs) \<Rightarrow>
          Inr (w\<lparr>pools := (pools w)(pool_uid pool \<mapsto> pool),
                 caps := (caps w)(cap_uid operator_cap \<mapsto> operator_cap),
                 next_id := fresh ctx,
                 event_log := event_log w @ evs\<rparr>))"

definition create_validator_pool :: "world \<Rightarrow> address \<Rightarrow> tx_error + world" where
  "create_validator_pool w a = create_custom_validator_pool w a 1000000000 10"

definition stake_to_pool :: "world \<Rightarrow> address \<Rightarrow> ID \<Rightarrow> Coin \<Rightarrow> tx_error + world" where
  "stake_to_pool w a p stake_coin =
     (case pools w p of
        None \<Rightarrow> Inl NoSuchObject
      | Some pool \<Rightarrow>
          (case stake pool stake_coin (tx_context w a) of
             Inl (e, _) \<Rightarrow> Inl (Aborted e)
           | Inr (pool, contributor, ctx, evs) \<Rightarrow>
               Inr (w\<lparr>pools := (pools w)(p \<mapsto> pool),
                      contributors :=
                        (contributors w)(contributor_uid contributor \<mapsto> contributor),
                      next_id := fresh ctx,
                      event_log := event_log w @ evs\<rparr>)))"

definition activate_validator_pool :: "world \<Rightarrow> address \<Rightarrow> ID \<Rightarrow> ID \<Rightarrow> tx_error + world" where
  "activate_validator_pool w a p k =
     (case (pools w p, caps w k) of
        (Some pool, Some operator_cap) \<Rightarrow>
          (case activate_pool pool operator_cap (tx_context w a) of
             Inl (e, _) \<Rightarrow> Inl (Aborted e)
           | Inr (pool, evs) \<Rightarrow>
               Inr (w\<lparr>pools := (pools w)(p \<mapsto> pool), event_log := event_log w @ evs\<rparr>))
      | _ \<Rightarrow> Inl NoSuchObject)"

definition record_validator_reward :: "world \<Rightarrow> ID \<Rightarrow> Coin \<Rightarrow> tx_error + world" where
  "record_validator_reward w p reward_coin =
     (case pools w p of
        None \<Rightarrow> Inl NoSuchObject
      | Some pool \<Rightarrow>
          (case record_reward pool reward_coin of
             Inl (e, _) \<Rightarrow> Inl (Aborted e)
           | Inr (pool, evs) \<Rightarrow>
               Inr (w\<lparr>pools := (pools w)(p \<mapsto> pool), event_log := event_log w @ evs\<rparr>)))"

definition claim_user_reward :: "world \<Rightarrow> address \<Rightarrow> ID \<Rightarrow> ID \<Rightarrow> tx_error + world" where
  "claim_user_reward w a p c =
     (case (pools w p, contributors w c) of
        (Some pool, Some contributor) \<Rightarrow>
          (case claim_reward pool contributor (tx_context w a) of
             Inl (e, _) \<Rightarrow> Inl (Aborted e)
           | Inr (pool, contributor, reward_coin, ctx, evs) \<Rightarrow>
               Inr (w\<lparr>pools := (pools w)(p \<mapsto> pool),
                      contributors := (contributors w)(c \<mapsto> contributor),
                      next_id := fresh ctx,
                      coins_out := coins_out w @ [(a, reward_coin)],
                      event_log := event_log w @ evs\<rparr>))
      | _ \<Rightarrow> Inl NoSuchObject)"

definition claim_operator_rewards :: "world \<Rightarrow> address \<Rightarrow> ID \<Rightarrow> ID \<Rightarrow> tx_error + world" where
  "claim_operator_rewards w a p k =
     (case (pools w p, caps w k) of
        (Some pool, Some operator_cap) \<Rightarrow>
          (case claim_operator_reward pool operator_cap (tx_context w a) of
             Inl (e, _) \<Rightarrow> Inl (Aborted e)
           | Inr (pool, reward_coin, ctx, evs) \<Rightarrow>
               Inr (w\<lparr>pools := (pools w)(p \<mapsto> pool),
                      next_id := fresh ctx,
                      coins_out := coins_out w @ [(a, reward_coin)],
                      event_log := event_log w @ evs\<rparr>))
      | _ \<Rightarrow> Inl NoSuchObject)"

definition withdraw_user_stake ::
  "world \<Rightarrow> address \<Rightarrow> ID \<Rightarrow> ID \<Rightarrow> u64 \<Rightarrow> tx_error + world" where
  "withdraw_user_stake w a p c amount =
     (case (pools w p, contributors w c) of
        (Some pool, Some contributor) \<Rightarrow>
          (case withdraw_stake pool contributor amount (tx_context w a) of
             Inl (e, _) \<Rightarrow> Inl (Aborted e)
           | Inr (pool, contributor, withdrawal_coin, ctx, evs) \<Rightarrow>
               Inr (w\<lparr>pools := (pools w)(p \<mapsto> pool),
                      contributors := (contributors w)(c \<mapsto> contributor),
                      next_id := fresh ctx,
                      coins_out := coins_out w @ [(a, withdrawal_coin)],
                      event_log := event_log w @ evs\<rparr>))
      | _ \<Rightarrow> Inl NoSuchObject)"

definition destroy_empty_contributor_tx :: "world \<Rightarrow> ID \<Rightarrow> tx_error + world" where
  "destroy_empty_contributor_tx w c =
     (case contributors w c of
        None \<Rightarrow> Inl NoSuchObject
      | Some contributor \<Rightarrow>
          (case destroy_empty_contributor contributor of
             Inl e \<Rightarrow> Inl (Aborted e)
           | Inr _ \<Rightarrow> Inr (w\<lparr>contributors := (contributors w)(c := None)\<rparr>)))"

fun exec :: "world \<Rightarrow> tx \<Rightarrow> tx_error + world" where
  "exec w (Create_validator_pool a) = create_validator_pool w a"
| "exec w (Create_custom_validator_pool a r pct) = create_custom_validator_pool w a r pct"
| "exec w (Stake_to_pool a p coin) = stake_to_pool w a p coin"
| "exec w (Activate_validator_pool a p k) = activate_validator_pool w a p k"
| "exec w (Record_validator_reward p coin) = record_validator_reward w p coin"
| "exec w (Claim_user_reward a p c) = claim_user_reward w a p c"
| "exec w (Claim_operator_rewards a p k) = claim_operator_rewards w a p k"
| "exec w (Withdraw_user_stake a p c amount) = withdraw_user_stake w a p c amount"
| "exec w (Destroy_empty_contributor c) = destroy_empty_contributor_tx w c"

text \<open>
  A history is a list of transactions that all succeed, run from a given world.  (A
  transaction that aborts leaves the store as it was, so it adds no state.)
\<close>

fun run :: "world \<Rightarrow> tx list \<Rightarrow> tx_error + world" where
  "run w [] = Inr w"
| "run w (t # ts) = (case exec w t of Inl e \<Rightarrow> Inl e | Inr w' \<Rightarrow> run w' ts)"





text \<open>
  Sums over the live contributor records of one pool: the records of the store below
  \<open>next_id\<close> whose \<open>pool_id\<close> is the pool's.
\<close>

definition sum_over :: "(ID \<Rightarrow> Contributor option) \<Rightarrow> ID \<Rightarrow> ID \<Rightarrow> (Contributor \<Rightarrow> nat) \<Rightarrow> nat" where
  "sum_over cs n p f =
     (\<Sum>i<n. case cs i of None \<Rightarrow> 0 | Some c \<Rightarrow> if pool_id c = p then f c else 0)"



section \<open>Invariants\<close>



definition part :: "ID \<Rightarrow> (Contributor \<Rightarrow> nat) \<Rightarrow> Contributor option \<Rightarrow> nat" where
  "part p f x = (case x of None \<Rightarrow> 0 | Some c \<Rightarrow> if pool_id c = p then f c else 0)"











section \<open>Example values\<close>

text \<open>
  The pool, the capability and the contributor record of the scenario the module's tests
  run: \<^verbatim>\<open>create_pool(1000, 10)\<close> by the operator \<open>10\<close>, and a stake of \<open>1000\<close> by the
  user \<open>11\<close>.
\<close>

definition example_pool :: ValidatorPool where
  "example_pool =
     \<lparr>pool_uid = 0, required_stake = 1000, total_stake = 0, operator = 10,
      operator_reward_pct = 10, status = COLLECTING, accumulated_reward = 0,
      reward_per_stake = 0, balance = 0\<rparr>"

definition example_cap :: OperatorCap where
  "example_cap = \<lparr>cap_uid = 1, cap_pool_id = 0\<rparr>"

definition example_contributor :: Contributor where
  "example_contributor =
     \<lparr>contributor_uid = 2, pool_id = 0, owner = 11, staked_amount = 1000, reward_debt = 0\<rparr>"

definition iota :: "u64 \<Rightarrow> Coin" where
  "iota n = \<lparr>coin_uid = 99, coin_balance = n\<rparr>"

definition tx_of :: "address \<Rightarrow> ID \<Rightarrow> TxContext" where
  "tx_of a n = \<lparr>sender = a, fresh = n\<rparr>"




section \<open>Example histories\<close>







section \<open>Lemmas\<close>

subsection \<open>Checked arithmetic\<close>

lemma unat_ucast_u8: "unat (ucast (p :: u8) :: u64) = unat p"
proof -
  have "unat p < 2 ^ 8" using unsigned_less [of p] by simp
  then have "unat p < 2 ^ 64" by simp
  then show ?thesis
    by (simp add: unsigned_ucast_eq take_bit_nat_eq_self_iff)
qed

lemma unat_checked_add:
  "checked_add a b = Some c \<Longrightarrow> unat c = unat a + unat b"
  by (auto simp: checked_add_def unat_add_lem [THEN iffD1] split: if_splits)

lemma unat_checked_mul:
  "checked_mul a b = Some c \<Longrightarrow> unat c = unat a * unat b"
  by (auto simp: checked_mul_def unat_mult_lem [THEN iffD1] split: if_splits)

lemma unat_checked_sub:
  "checked_sub a b = Some c \<Longrightarrow> unat c = unat a - unat b \<and> unat b \<le> unat a"
  by (auto simp: checked_sub_def unat_sub word_le_nat_alt split: if_splits)


lemmas status_defs = COLLECTING_def READY_def ACTIVE_def

text \<open>What a successful call returns.\<close>

lemma stake_Inr:
  assumes "stake P coin ctx = Inr (P', c, ctx', evs)"
  shows "status P = COLLECTING \<or> status P = READY"
    and "0 < unat (coin_value coin)"
    and "unat (balance P') = unat (balance P) + unat (coin_value coin)"
    and "unat (total_stake P') = unat (total_stake P) + unat (coin_value coin)"
    and "status P' = (if unat (required_stake P) \<le> unat (total_stake P') \<and> status P = COLLECTING
                      then READY else status P)"
    and "P' = P\<lparr>balance := balance P', total_stake := total_stake P', status := status P'\<rparr>"
    and "unat (reward_debt c) = unat (reward_per_stake P) * unat (coin_value coin) div 1000000"
    and "c = \<lparr>contributor_uid = fresh ctx, pool_id = pool_uid P, owner = sender ctx,
              staked_amount = coin_value coin, reward_debt = reward_debt c\<rparr>"
    and "ctx' = ctx\<lparr>fresh := Suc (fresh ctx)\<rparr>"
    and "pool_uid P' = pool_uid P" and "required_stake P' = required_stake P"
    and "operator_reward_pct P' = operator_reward_pct P"
    and "accumulated_reward P' = accumulated_reward P"
    and "reward_per_stake P' = reward_per_stake P"
    and "pool_id c = pool_uid P" and "contributor_uid c = fresh ctx"
    and "unat (staked_amount c) = unat (coin_value coin)"
  using assms
  by (auto simp: stake_def Let_def object_new_def balance_join_def coin_into_balance_def coin_value_def
      word_le_nat_alt word_less_nat_alt unat_div
      dest!: unat_checked_add unat_checked_mul split: if_splits option.splits prod.splits)

lemma activate_pool_Inr:
  assumes "activate_pool P cap ctx = Inr (P', evs)"
  shows "status P = READY" and "sender ctx = operator P" and "P' = P\<lparr>status := ACTIVE\<rparr>"
  using assms by (auto simp: activate_pool_def Let_def split: if_splits)

lemma record_reward_Inr:
  assumes "record_reward P coin = Inr (P', evs)"
  shows "status P = ACTIVE"
    and "0 < unat (coin_value coin)"
    and "unat (balance P') = unat (balance P) + unat (coin_value coin)"
    and "unat (accumulated_reward P') = unat (accumulated_reward P) + unat (coin_value coin)"
    and "unat (reward_per_stake P') =
           (if 0 < unat (total_stake P)
            then unat (reward_per_stake P) +
                 unat (coin_value coin) * 1000000 div unat (total_stake P)
            else unat (reward_per_stake P))"
    and "P' = P\<lparr>balance := balance P', accumulated_reward := accumulated_reward P',
                 reward_per_stake := reward_per_stake P'\<rparr>"
    and "pool_uid P' = pool_uid P" and "required_stake P' = required_stake P"
    and "operator_reward_pct P' = operator_reward_pct P"
    and "total_stake P' = total_stake P" and "status P' = status P"
  using assms
  by (auto simp: record_reward_def Let_def balance_join_def coin_into_balance_def coin_value_def
      checked_div_def word_le_nat_alt word_less_nat_alt unat_div unat_gt_0
      dest!: unat_checked_add unat_checked_mul split: if_splits option.splits prod.splits)

lemma claim_reward_Inr:
  assumes "claim_reward P c ctx = Inr (P', c', coin, ctx', evs)"
  shows "status P = ACTIVE"
    and "owner c = sender ctx"
    and "unat (reward_debt c) \<le> unat (staked_amount c) * unat (reward_per_stake P) div 1000000"
    and "unat (operator_reward_pct P) \<le> 100 \<or>
         unat (staked_amount c) * unat (reward_per_stake P) div 1000000 = unat (reward_debt c)"
    and "unat (coin_value coin) =
           (unat (staked_amount c) * unat (reward_per_stake P) div 1000000 - unat (reward_debt c)) *
           (100 - unat (operator_reward_pct P)) div 100"
    and "unat (coin_value coin) \<le> unat (balance P)"
    and "unat (balance P') = unat (balance P) - unat (coin_value coin)"
    and "unat (reward_debt c') = unat (staked_amount c) * unat (reward_per_stake P) div 1000000"
    and "P' = P\<lparr>balance := balance P'\<rparr>"
    and "c' = c\<lparr>reward_debt := reward_debt c'\<rparr>"
    and "fresh ctx' = Suc (fresh ctx)"
    and "pool_uid P' = pool_uid P" and "required_stake P' = required_stake P"
    and "operator_reward_pct P' = operator_reward_pct P"
    and "total_stake P' = total_stake P" and "status P' = status P"
    and "accumulated_reward P' = accumulated_reward P"
    and "reward_per_stake P' = reward_per_stake P"
    and "pool_id c' = pool_id c" and "staked_amount c' = staked_amount c"
  using assms
  by (auto simp: claim_reward_def Let_def balance_split_def balance_zero_def coin_value_def
      coin_from_balance_def object_new_def unat_ucast_u8
      word_le_nat_alt word_less_nat_alt unat_div unat_gt_0 unat_sub
      dest!: unat_checked_sub unat_checked_mul split: if_splits option.splits prod.splits)


lemma withdraw_stake_Inr:
  assumes "withdraw_stake P c amount ctx = Inr (P', c', coin, ctx', evs)"
  shows "status P = COLLECTING \<or> status P = READY"
    and "owner c = sender ctx"
    and "0 < unat amount"
    and "unat amount \<le> unat (staked_amount c)"
    and "unat amount \<le> unat (total_stake P)"
    and "unat amount \<le> unat (balance P)"
    and "coin_value coin = amount"
    and "unat (staked_amount c') = unat (staked_amount c) - unat amount"
    and "unat (total_stake P') = unat (total_stake P) - unat amount"
    and "unat (balance P') = unat (balance P) - unat amount"
    and "balance P' = balance P - amount"
    and "total_stake P' = total_stake P - amount"
    and "status P' = (if unat (total_stake P') < unat (required_stake P) \<and> status P = READY
                      then COLLECTING else status P)"
    and "P' = P\<lparr>total_stake := total_stake P', status := status P', balance := balance P'\<rparr>"
    and "c' = c\<lparr>staked_amount := staked_amount c'\<rparr>"
    and "fresh ctx' = Suc (fresh ctx)"
    and "pool_uid P' = pool_uid P" and "required_stake P' = required_stake P"
    and "operator_reward_pct P' = operator_reward_pct P"
    and "accumulated_reward P' = accumulated_reward P"
    and "reward_per_stake P' = reward_per_stake P"
    and "pool_id c' = pool_id c" and "reward_debt c' = reward_debt c"
  using assms
  by (auto simp: withdraw_stake_def Let_def balance_split_def balance_zero_def
      coin_value_def coin_from_balance_def object_new_def
      word_le_nat_alt word_less_nat_alt unat_gt_0 unat_sub checked_sub_def
      split: if_splits option.splits prod.splits)

lemma create_pool_Inr:
  assumes "create_pool r pct ctx = Inr (P, cap, ctx', evs)"
  shows "unat pct \<le> 100" and "0 < unat r"
    and "P = \<lparr>pool_uid = fresh ctx, required_stake = r, total_stake = 0, operator = sender ctx,
              operator_reward_pct = pct, status = COLLECTING, accumulated_reward = 0,
              reward_per_stake = 0, balance = 0\<rparr>"
    and "cap = \<lparr>cap_uid = Suc (fresh ctx), cap_pool_id = fresh ctx\<rparr>"
    and "fresh ctx' = Suc (Suc (fresh ctx))"
  using assms
  by (auto simp: create_pool_def Let_def object_new_def balance_zero_def
      word_le_nat_alt word_less_nat_alt split: if_splits)













lemma sum_over_part: "sum_over cs n p f = (\<Sum>i<n. part p f (cs i))"
  by (simp add: sum_over_def part_def)






lemma sum_over_other:
  assumes "\<And>c. v = Some c \<Longrightarrow> pool_id c \<noteq> p" and "\<And>c. cs k = Some c \<Longrightarrow> pool_id c \<noteq> p"
  shows "sum_over (cs(k := v)) n p f = sum_over cs n p f"
  unfolding sum_over_part
  by (rule sum.cong) (auto simp: part_def assms split: option.splits)























lemmas exec_defs =
  create_validator_pool_def create_custom_validator_pool_def stake_to_pool_def
  activate_validator_pool_def record_validator_reward_def claim_user_reward_def
  claim_operator_rewards_def withdraw_user_stake_def destroy_empty_contributor_tx_def
  destroy_empty_contributor_def tx_context_def empty_world_def

lemmas fun_defs =
  create_pool_def stake_def activate_pool_def record_reward_def claim_reward_def
  claim_operator_reward_def withdraw_stake_def object_new_def balance_zero_def balance_join_def
  balance_split_def coin_value_def coin_into_balance_def coin_from_balance_def
  checked_add_def checked_sub_def checked_mul_def checked_div_def Let_def















subsection \<open>Claiming twice\<close>

lemma claim_reward_again:
  assumes "claim_reward P c ctx = Inr (P', c', coin, ctx', evs)" and "sender ctx2 = sender ctx"
  shows "claim_reward P' c' ctx2 =
           Inr (P', c', \<lparr>coin_uid = fresh ctx2, coin_balance = 0\<rparr>,
                ctx2\<lparr>fresh := Suc (fresh ctx2)\<rparr>, [])"
  using assms
  by (auto simp: claim_reward_def Let_def coin_from_balance_def object_new_def balance_zero_def
      balance_split_def checked_sub_def
      split: if_splits option.splits prod.splits)

lemma claim_reward_succeeds:
  assumes "status P = ACTIVE" and "owner c = sender ctx"
    and "unat (staked_amount c) * unat (reward_per_stake P) < 2 ^ 64"
    and "unat (reward_debt c) \<le> unat (staked_amount c) * unat (reward_per_stake P) div 1000000"
    and "unat (operator_reward_pct P) \<le> 100"
    and "(unat (staked_amount c) * unat (reward_per_stake P) div 1000000 - unat (reward_debt c)) *
           (100 - unat (operator_reward_pct P)) < 2 ^ 64"
    and "(unat (staked_amount c) * unat (reward_per_stake P) div 1000000 - unat (reward_debt c)) *
           (100 - unat (operator_reward_pct P)) div 100 \<le> unat (balance P)"
  shows "\<exists>P' c' coin ctx' evs. claim_reward P c ctx = Inr (P', c', coin, ctx', evs)"
proof -
  from assms(3) obtain m where m: "checked_mul (staked_amount c) (reward_per_stake P) = Some m"
    by (simp add: checked_mul_def)
  note um = unat_checked_mul [OF m]
  from assms(4) um obtain g where g: "checked_sub (m div 1000000) (reward_debt c) = Some g"
    by (simp add: checked_sub_def unat_div)
  note ug = unat_checked_sub [OF g]
  from assms(5) obtain q where q: "checked_sub 100 (ucast (operator_reward_pct P)) = Some q"
    by (simp add: checked_sub_def unat_ucast_u8)
  note uq = unat_checked_sub [OF q]
  from assms(6) um ug uq obtain n where n: "checked_mul g q = Some n"
    by (simp add: checked_mul_def unat_div unat_ucast_u8)
  note un = unat_checked_mul [OF n]
  from assms(7) um ug uq un have "n div 100 \<le> balance P"
    by (simp add: word_le_nat_alt unat_div unat_ucast_u8)
  then show ?thesis
    using assms(1,2) m g q n
    by (simp add: claim_reward_def Let_def coin_from_balance_def object_new_def balance_split_def)
qed

lemmas example_defs = example_pool_def example_cap_def example_contributor_def iota_def tx_of_def

subsection \<open>The round trip\<close>

lemma unat_u64_bound: "unat (x :: u64) < 18446744073709551616"
  using unsigned_less [of x, where ?'a = nat] by simp

lemma round_trip_setup:
  assumes S: "0 < S" and R: "0 < R" and p: "p \<le> 100"
    and mul: "unat R * 1000000 < 2 ^ 64" and add: "unat S + unat R < 2 ^ 64"
    and sv: "coin_value stake_coin = S" and rv: "coin_value reward_coin = R"
    and op: "sender ctx2 = sender ctx0"
  shows "\<exists>pool0 cap ctx0' evs0 pool1 contributor ctx1' evs1 pool2 evs2 pool3 evs3.
           create_pool S p ctx0 = Inr (pool0, cap, ctx0', evs0) \<and>
           stake pool0 stake_coin ctx1 = Inr (pool1, contributor, ctx1', evs1) \<and>
           activate_pool pool1 cap ctx2 = Inr (pool2, evs2) \<and>
           record_reward pool2 reward_coin = Inr (pool3, evs3)"
proof -
  have S0: "S \<noteq> 0" using S by simp
  have R0: "R \<noteq> 0" using R by simp
  have c: "create_pool S p ctx0 =
      Inr (\<lparr>pool_uid = fresh ctx0, required_stake = S, total_stake = 0, operator = sender ctx0,
             operator_reward_pct = p, status = COLLECTING, accumulated_reward = 0,
             reward_per_stake = 0, balance = 0\<rparr>,
           \<lparr>cap_uid = Suc (fresh ctx0), cap_pool_id = fresh ctx0\<rparr>,
           ctx0\<lparr>fresh := Suc (Suc (fresh ctx0))\<rparr>,
           [PoolCreated (fresh ctx0) (sender ctx0) S p])"
    using S p by (simp add: create_pool_def Let_def object_new_def balance_zero_def)
  have s: "stake \<lparr>pool_uid = fresh ctx0, required_stake = S, total_stake = 0, operator = sender ctx0,
             operator_reward_pct = p, status = COLLECTING, accumulated_reward = 0,
             reward_per_stake = 0, balance = 0\<rparr> stake_coin ctx1 =
      Inr (\<lparr>pool_uid = fresh ctx0, required_stake = S, total_stake = S, operator = sender ctx0,
             operator_reward_pct = p, status = READY, accumulated_reward = 0,
             reward_per_stake = 0, balance = S\<rparr>,
           \<lparr>contributor_uid = fresh ctx1, pool_id = fresh ctx0, owner = sender ctx1,
              staked_amount = S, reward_debt = 0\<rparr>,
           ctx1\<lparr>fresh := Suc (fresh ctx1)\<rparr>,
           [StakeDeposited (fresh ctx0) (sender ctx1) S S READY])"
    using S sv
    by (simp add: stake_def Let_def object_new_def balance_join_def coin_into_balance_def
        coin_value_def checked_add_def checked_mul_def unat_u64_bound)
  have a: "activate_pool \<lparr>pool_uid = fresh ctx0, required_stake = S, total_stake = S,
             operator = sender ctx0, operator_reward_pct = p, status = READY,
             accumulated_reward = 0, reward_per_stake = 0, balance = S\<rparr>
           \<lparr>cap_uid = Suc (fresh ctx0), cap_pool_id = fresh ctx0\<rparr> ctx2 =
      Inr (\<lparr>pool_uid = fresh ctx0, required_stake = S, total_stake = S, operator = sender ctx0,
             operator_reward_pct = p, status = ACTIVE, accumulated_reward = 0,
             reward_per_stake = 0, balance = S\<rparr>,
           [PoolActivated (fresh ctx0) (sender ctx0) S])"
    using op by (simp add: activate_pool_def Let_def)
  have r: "\<exists>pool3 evs3. record_reward \<lparr>pool_uid = fresh ctx0, required_stake = S, total_stake = S,
             operator = sender ctx0, operator_reward_pct = p, status = ACTIVE,
             accumulated_reward = 0, reward_per_stake = 0, balance = S\<rparr> reward_coin =
           Inr (pool3, evs3)"
    using S R rv mul add S0
    by (simp add: record_reward_def Let_def balance_join_def coin_into_balance_def
        coin_value_def checked_add_def checked_mul_def checked_div_def unat_u64_bound)
  from c s a r show ?thesis by metis
qed

lemma round_trip_claims:
  assumes cp: "create_pool S p ctx0 = Inr (pool0, cap, ctx0', evs0)"
    and st: "stake pool0 stake_coin ctx1 = Inr (pool1, contributor, ctx1', evs1)"
    and sv: "coin_value stake_coin = S"
    and ac: "activate_pool pool1 cap ctx2 = Inr (pool2, evs2)"
    and rr: "record_reward pool2 reward_coin = Inr (pool3, evs3)"
    and rv: "coin_value reward_coin = R"
    and s3: "sender ctx3 = sender ctx1" and s4: "sender ctx4 = sender ctx1"
  shows "0 < unat S \<and> 0 < unat R \<and> unat p \<le> 100 \<and>
         (\<exists>pool4 contributor' payout ctx3' evs4 zero ctx4'.
            claim_reward pool3 contributor ctx3 = Inr (pool4, contributor', payout, ctx3', evs4) \<and>
            unat (coin_value payout) =
              (((unat R * 1000000) div unat S) * unat S) div 1000000 * (100 - unat p) div 100 \<and>
            claim_reward pool4 contributor' ctx4 = Inr (pool4, contributor', zero, ctx4', []) \<and>
            coin_value zero = 0)"
proof -
  note c = create_pool_Inr [OF cp]
  note s = stake_Inr [OF st]
  note a = activate_pool_Inr [OF ac]
  note r = record_reward_Inr [OF rr]
  have p0: "total_stake pool0 = 0" "reward_per_stake pool0 = 0" "balance pool0 = 0"
    "operator_reward_pct pool0 = p" "required_stake pool0 = S"
    by (simp_all add: c(3))
  have c1: "unat (staked_amount contributor) = unat S" "reward_debt contributor = 0"
    "owner contributor = sender ctx1"
    using s(7) s(17) s(8) [THEN arg_cong [where f = owner]] p0 sv
    by (simp_all flip: unat_eq_zero)
  have p1: "unat (total_stake pool1) = unat S" "unat (balance pool1) = unat S"
    "reward_per_stake pool1 = 0" "operator_reward_pct pool1 = p"
    using s(3) s(4) s(12) s(14) p0 sv by simp_all
  have p2: "unat (total_stake pool2) = unat S" "unat (balance pool2) = unat S"
    "reward_per_stake pool2 = 0" "operator_reward_pct pool2 = p"
    using p1 by (simp_all add: a(3))
  have S: "0 < unat S" using c(2) .
  have R: "0 < unat R" using r(2) rv by simp
  have rps: "unat (reward_per_stake pool3) = unat R * 1000000 div unat S"
    using r(5) p2 S rv by simp
  have p3: "status pool3 = ACTIVE" "operator_reward_pct pool3 = p"
    "unat (balance pool3) = unat S + unat R"
    using r(1) r(3) r(9) r(11) p2 rv by simp_all
  define g where "g = unat S * (unat R * 1000000 div unat S) div 1000000"
  have big: "unat R * 1000000 < 2 ^ 64"
  proof -
    obtain m where "checked_mul (coin_value reward_coin) 1000000 = Some m"
      using rr p2(1) S r(1) r(2)
      by (auto simp: record_reward_def Let_def word_less_nat_alt
          split: if_splits option.splits)
    then show ?thesis using rv by (simp add: checked_mul_def split: if_splits)
  qed
  have le: "unat S * (unat R * 1000000 div unat S) \<le> unat R * 1000000"
    by (rule times_div_less_eq_dividend)
  then have "unat S * (unat R * 1000000 div unat S) div 1000000 \<le> unat R * 1000000 div 1000000"
    by (rule div_le_mono)
  then have gR: "g \<le> unat R" unfolding g_def by simp
  have gq: "g * (100 - unat p) \<le> unat R * 100"
    using gR by (intro mult_mono) simp_all
  have m1: "unat S * (unat R * 1000000 div unat S) < 2 ^ 64"
    using le big by (rule le_less_trans)
  have "unat R * 100 \<le> unat R * 1000000" by simp
  with gq have "g * (100 - unat p) \<le> unat R * 1000000" by (rule order_trans)
  then have m2: "g * (100 - unat p) < 2 ^ 64" using big by (rule le_less_trans)
  have "g * (100 - unat p) div 100 \<le> unat R * 100 div 100" using gq by (rule div_le_mono)
  then have m3: "g * (100 - unat p) div 100 \<le> unat S + unat R" by simp
  have ex: "\<exists>P' c' coin ctx' evs. claim_reward pool3 contributor ctx3 = Inr (P', c', coin, ctx', evs)"
  proof (rule claim_reward_succeeds)
    show "status pool3 = ACTIVE" by (rule p3)
    show "owner contributor = sender ctx3" by (simp add: c1 s3)
    show "unat (staked_amount contributor) * unat (reward_per_stake pool3) < 2 ^ 64"
      using m1 by (simp only: c1 rps)
    show "unat (reward_debt contributor)
            \<le> unat (staked_amount contributor) * unat (reward_per_stake pool3) div 1000000"
      by (simp add: c1)
    show "unat (operator_reward_pct pool3) \<le> 100" using c(1) by (simp add: p3)
    show "(unat (staked_amount contributor) * unat (reward_per_stake pool3) div 1000000 -
             unat (reward_debt contributor)) * (100 - unat (operator_reward_pct pool3)) < 2 ^ 64"
      using m2 by (simp only: c1 rps p3 g_def unsigned_0 diff_zero)
    show "(unat (staked_amount contributor) * unat (reward_per_stake pool3) div 1000000 -
             unat (reward_debt contributor)) * (100 - unat (operator_reward_pct pool3)) div 100
           \<le> unat (balance pool3)"
      using m3 by (simp only: c1 rps p3 g_def unsigned_0 diff_zero)
  qed
  then obtain pool4 contributor' payout ctx3' evs4 where
    cl: "claim_reward pool3 contributor ctx3 = Inr (pool4, contributor', payout, ctx3', evs4)"
    by blast
  have pay: "unat (coin_value payout) =
      (((unat R * 1000000) div unat S) * unat S) div 1000000 * (100 - unat p) div 100"
    using claim_reward_Inr(5) [OF cl] by (simp add: c1 rps p3 mult.commute)
  have s4': "sender ctx4 = sender ctx3" by (simp add: s3 s4)
  show ?thesis
    using S R c(1) cl pay claim_reward_again [OF cl s4'] by (auto simp: coin_value_def)
qed

subsection \<open>Histories\<close>


















section \<open>The claims\<close>

subsection \<open>Functions\<close>

text \<open>
  Claim C3 (round trip), as amended.  For every \<open>S > 0\<close>, \<open>R > 0\<close> and \<open>p \<le> 100\<close> with
  \<open>R * 1000000 < 2^64\<close> and \<open>S + R < 2^64\<close>: \<^verbatim>\<open>create_pool(S, p)\<close>, a single stake of
  \<open>S\<close>, the activation by the operator and \<^verbatim>\<open>record_reward(R)\<close> all succeed,
  \<^verbatim>\<open>claim_reward\<close> by the staker then succeeds and pays
  \<open>floor(floor(floor(R * 1000000 / S) * S / 1000000) * (100 - p) / 100)\<close>, and a second claim
  by the same sender right after it succeeds, pays a coin of value zero, emits nothing and
  returns the pool and the record as they were.
\<close>

theorem round_trip:
  assumes S: "0 < S" and R: "0 < R" and p: "p \<le> 100"
    and mul: "unat R * 1000000 < 2 ^ 64" and add: "unat S + unat R < 2 ^ 64"
    and sv: "coin_value stake_coin = S" and rv: "coin_value reward_coin = R"
    and op: "sender ctx2 = sender ctx0"
    and s3: "sender ctx3 = sender ctx1" and s4: "sender ctx4 = sender ctx1"
  shows "\<exists>pool0 cap ctx0' evs0 pool1 contributor ctx1' evs1 pool2 evs2 pool3 evs3
            pool4 contributor' payout ctx3' evs4 zero ctx4'.
           create_pool S p ctx0 = Inr (pool0, cap, ctx0', evs0) \<and>
           stake pool0 stake_coin ctx1 = Inr (pool1, contributor, ctx1', evs1) \<and>
           activate_pool pool1 cap ctx2 = Inr (pool2, evs2) \<and>
           record_reward pool2 reward_coin = Inr (pool3, evs3) \<and>
           claim_reward pool3 contributor ctx3 = Inr (pool4, contributor', payout, ctx3', evs4) \<and>
           unat (coin_value payout) =
             (((unat R * 1000000) div unat S) * unat S) div 1000000 * (100 - unat p) div 100 \<and>
           claim_reward pool4 contributor' ctx4 = Inr (pool4, contributor', zero, ctx4', []) \<and>
           coin_value zero = 0"
proof -
  from round_trip_setup [OF S R p mul add sv rv op, of ctx1]
  obtain pool0 cap ctx0' evs0 pool1 contributor ctx1' evs1 pool2 evs2 pool3 evs3 where
    cp: "create_pool S p ctx0 = Inr (pool0, cap, ctx0', evs0)" and
    st: "stake pool0 stake_coin ctx1 = Inr (pool1, contributor, ctx1', evs1)" and
    ac: "activate_pool pool1 cap ctx2 = Inr (pool2, evs2)" and
    rr: "record_reward pool2 reward_coin = Inr (pool3, evs3)"
    by blast
  from round_trip_claims [OF cp st sv ac rr rv s3 s4]
  obtain pool4 contributor' payout ctx3' evs4 zero ctx4' where
    "claim_reward pool3 contributor ctx3 = Inr (pool4, contributor', payout, ctx3', evs4)"
    "unat (coin_value payout) =
       (((unat R * 1000000) div unat S) * unat S) div 1000000 * (100 - unat p) div 100"
    "claim_reward pool4 contributor' ctx4 = Inr (pool4, contributor', zero, ctx4', [])"
    "coin_value zero = 0"
    by blast
  with cp st ac rr show ?thesis by blast
qed

theorem round_trip_witness:
  "create_pool 1000 10 (tx_of 10 0) =
     Inr (example_pool, example_cap, tx_of 10 2, [PoolCreated 0 10 1000 10]) \<and>
   stake example_pool (iota 1000) (tx_of 11 2) =
     Inr (example_pool\<lparr>total_stake := 1000, balance := 1000, status := READY\<rparr>,
          example_contributor, tx_of 11 3, [StakeDeposited 0 11 1000 1000 READY]) \<and>
   activate_pool (example_pool\<lparr>total_stake := 1000, balance := 1000, status := READY\<rparr>)
       example_cap (tx_of 10 3) =
     Inr (example_pool\<lparr>total_stake := 1000, balance := 1000, status := ACTIVE\<rparr>,
          [PoolActivated 0 10 1000]) \<and>
   record_reward (example_pool\<lparr>total_stake := 1000, balance := 1000, status := ACTIVE\<rparr>)
       (iota 100) =
     Inr (example_pool\<lparr>total_stake := 1000, balance := 1100, status := ACTIVE,
                       accumulated_reward := 100, reward_per_stake := 100000\<rparr>,
          [RewardRecorded 0 100 100]) \<and>
   claim_reward (example_pool\<lparr>total_stake := 1000, balance := 1100, status := ACTIVE,
                              accumulated_reward := 100, reward_per_stake := 100000\<rparr>)
       example_contributor (tx_of 11 3) =
     Inr (example_pool\<lparr>total_stake := 1000, balance := 1010, status := ACTIVE,
                       accumulated_reward := 100, reward_per_stake := 100000\<rparr>,
          example_contributor\<lparr>reward_debt := 100\<rparr>, \<lparr>coin_uid = 3, coin_balance = 90\<rparr>,
          tx_of 11 4, [RewardClaimed 0 11 90 False]) \<and>
   (((100 * 1000000) div 1000) * 1000) div 1000000 * (100 - 10) div 100 = (90 :: nat) \<and>
   claim_reward (example_pool\<lparr>total_stake := 1000, balance := 1010, status := ACTIVE,
                              accumulated_reward := 100, reward_per_stake := 100000\<rparr>)
       (example_contributor\<lparr>reward_debt := 100\<rparr>) (tx_of 11 4) =
     Inr (example_pool\<lparr>total_stake := 1000, balance := 1010, status := ACTIVE,
                       accumulated_reward := 100, reward_per_stake := 100000\<rparr>,
          example_contributor\<lparr>reward_debt := 100\<rparr>, \<lparr>coin_uid = 4, coin_balance = 0\<rparr>,
          tx_of 11 5, [])"
proof -
  have b: "(0 :: u64) < 1000" "(0 :: u64) < 100" "(10 :: u8) \<le> 100"
    "unat (100 :: u64) * 1000000 < 2 ^ 64" "unat (1000 :: u64) + unat (100 :: u64) < 2 ^ 64"
    by simp_all
  have v: "coin_value (iota 1000) = 1000" "coin_value (iota 100) = 100"
    "sender (tx_of 10 3) = sender (tx_of 10 0)"
    "sender (tx_of 11 3) = sender (tx_of 11 2)" "sender (tx_of 11 4) = sender (tx_of 11 2)"
    by (simp_all add: example_defs coin_value_def)
  from round_trip [OF b v]
  show ?thesis
    by (simp add: example_defs fun_defs status_defs)
qed

text \<open>
  The claim as written has no bound on \<open>R\<close>.  With \<open>S = 1000\<close> and \<open>p = 10\<close> the first
  three calls succeed as above, and \<^verbatim>\<open>record_reward\<close> of \<open>18446744073710\<close> stops with an
  arithmetic error at \<open>reward_amount * 1000000\<close>, after it has joined the coin and added to
  \<open>accumulated_reward\<close>; the transaction aborts and there is no claim to pay.  One unit less
  is recorded.
\<close>

theorem round_trip_counterexample:
  "(0 :: u64) < 1000 \<and> (0 :: u64) < 18446744073710 \<and> (10 :: u8) \<le> 100 \<and>
   create_pool 1000 10 (tx_of 10 0) =
     Inr (example_pool, example_cap, tx_of 10 2, [PoolCreated 0 10 1000 10]) \<and>
   stake example_pool (iota 1000) (tx_of 11 2) =
     Inr (example_pool\<lparr>total_stake := 1000, balance := 1000, status := READY\<rparr>,
          example_contributor, tx_of 11 3, [StakeDeposited 0 11 1000 1000 READY]) \<and>
   activate_pool (example_pool\<lparr>total_stake := 1000, balance := 1000, status := READY\<rparr>)
       example_cap (tx_of 10 3) =
     Inr (example_pool\<lparr>total_stake := 1000, balance := 1000, status := ACTIVE\<rparr>,
          [PoolActivated 0 10 1000]) \<and>
   record_reward (example_pool\<lparr>total_stake := 1000, balance := 1000, status := ACTIVE\<rparr>)
       (iota 18446744073710) =
     Inl (ArithmeticError,
          example_pool\<lparr>total_stake := 1000, balance := 18446744074710, status := ACTIVE,
                        accumulated_reward := 18446744073710\<rparr>) \<and>
   run empty_world
     [Create_custom_validator_pool 10 1000 10, Stake_to_pool 11 0 (iota 1000),
      Activate_validator_pool 10 0 1, Record_validator_reward 0 (iota 18446744073710)] =
     Inl (Aborted ArithmeticError) \<and>
   record_reward (example_pool\<lparr>total_stake := 1000, balance := 1000, status := ACTIVE\<rparr>)
       (iota 18446744073709) =
     Inr (example_pool\<lparr>total_stake := 1000, balance := 18446744074709, status := ACTIVE,
                       accumulated_reward := 18446744073709,
                       reward_per_stake := 18446744073709000\<rparr>,
          [RewardRecorded 0 18446744073709 18446744073709])"
  by (simp add: example_defs exec_defs fun_defs status_defs)

text \<open>
  Claim C4.  A successful stake into a pool that is \<open>COLLECTING\<close> makes it \<open>READY\<close>
  exactly when the old \<open>total_stake\<close> plus the amount reaches \<open>required_stake\<close>, and leaves
  it \<open>COLLECTING\<close> otherwise; a successful stake into a pool that is \<open>READY\<close> leaves it
  \<open>READY\<close>.
\<close>

theorem stake_status:
  assumes "stake pool stake_coin ctx = Inr (pool', contributor, ctx', evs)"
  shows "(status pool = COLLECTING \<longrightarrow>
            status pool' =
              (if unat (required_stake pool) \<le> unat (total_stake pool) + unat (coin_value stake_coin)
               then READY else COLLECTING)) \<and>
         (status pool = READY \<longrightarrow> status pool' = READY)"
  using stake_Inr(1,4,5) [OF assms] by (auto simp: status_defs)

theorem stake_status_witness:
  "stake example_pool (iota 400) (tx_of 11 2) =
     Inr (example_pool\<lparr>total_stake := 400, balance := 400\<rparr>,
          example_contributor\<lparr>staked_amount := 400\<rparr>, tx_of 11 3,
          [StakeDeposited 0 11 400 400 COLLECTING]) \<and>
   status example_pool = COLLECTING \<and>
   status (example_pool\<lparr>total_stake := 400, balance := 400\<rparr>) = COLLECTING \<and>
   stake (example_pool\<lparr>total_stake := 400, balance := 400\<rparr>) (iota 600) (tx_of 12 3) =
     Inr (example_pool\<lparr>total_stake := 1000, balance := 1000, status := READY\<rparr>,
          \<lparr>contributor_uid = 3, pool_id = 0, owner = 12, staked_amount = 600, reward_debt = 0\<rparr>,
          tx_of 12 4, [StakeDeposited 0 12 600 1000 READY]) \<and>
   status (example_pool\<lparr>total_stake := 1000, balance := 1000, status := READY\<rparr>) = READY \<and>
   stake (example_pool\<lparr>total_stake := 1000, balance := 1000, status := READY\<rparr>) (iota 5)
       (tx_of 12 4) =
     Inr (example_pool\<lparr>total_stake := 1005, balance := 1005, status := READY\<rparr>,
          \<lparr>contributor_uid = 4, pool_id = 0, owner = 12, staked_amount = 5, reward_debt = 0\<rparr>,
          tx_of 12 5, [StakeDeposited 0 12 5 1005 READY]) \<and>
   status (example_pool\<lparr>total_stake := 1005, balance := 1005, status := READY\<rparr>) = READY"
proof -
  have a: "stake example_pool (iota 400) (tx_of 11 2) =
     Inr (example_pool\<lparr>total_stake := 400, balance := 400\<rparr>,
          example_contributor\<lparr>staked_amount := 400\<rparr>, tx_of 11 3,
          [StakeDeposited 0 11 400 400 COLLECTING])"
    by (simp add: example_defs fun_defs status_defs)
  have b: "stake (example_pool\<lparr>total_stake := 400, balance := 400\<rparr>) (iota 600) (tx_of 12 3) =
     Inr (example_pool\<lparr>total_stake := 1000, balance := 1000, status := READY\<rparr>,
          \<lparr>contributor_uid = 3, pool_id = 0, owner = 12, staked_amount = 600, reward_debt = 0\<rparr>,
          tx_of 12 4, [StakeDeposited 0 12 600 1000 READY])"
    by (simp add: example_defs fun_defs status_defs)
  have c: "stake (example_pool\<lparr>total_stake := 1000, balance := 1000, status := READY\<rparr>) (iota 5)
       (tx_of 12 4) =
     Inr (example_pool\<lparr>total_stake := 1005, balance := 1005, status := READY\<rparr>,
          \<lparr>contributor_uid = 4, pool_id = 0, owner = 12, staked_amount = 5, reward_debt = 0\<rparr>,
          tx_of 12 5, [StakeDeposited 0 12 5 1005 READY])"
    by (simp add: example_defs fun_defs status_defs)
  show ?thesis
    using a b c stake_status [OF a] stake_status [OF b] stake_status [OF c]
    by (simp add: example_defs fun_defs status_defs)
qed

text \<open>
  Claim C5.  \<^verbatim>\<open>withdraw_stake\<close> on a pool that is \<open>ACTIVE\<close> aborts with
  \<open>E_WITHDRAWAL_NOT_ALLOWED\<close>, whatever the record, the amount, the sender and the balance
  are, and nothing has been written.  A successful withdrawal from a pool that is \<open>READY\<close>
  makes it \<open>COLLECTING\<close> exactly when the new \<open>total_stake\<close> is below \<open>required_stake\<close>,
  and leaves it \<open>READY\<close> otherwise.
\<close>

theorem withdraw_status:
  "(status pool = ACTIVE \<longrightarrow>
      withdraw_stake pool contributor amount ctx =
        Inl (Abort E_WITHDRAWAL_NOT_ALLOWED, pool, contributor, ctx)) \<and>
   (status pool = READY \<and>
    withdraw_stake pool contributor amount ctx = Inr (pool', contributor', coin, ctx', evs) \<longrightarrow>
      unat (total_stake pool') = unat (total_stake pool) - unat amount \<and>
      status pool' =
        (if unat (total_stake pool') < unat (required_stake pool) then COLLECTING else READY))"
proof (intro conjI impI)
  assume "status pool = ACTIVE"
  then show "withdraw_stake pool contributor amount ctx =
        Inl (Abort E_WITHDRAWAL_NOT_ALLOWED, pool, contributor, ctx)"
    by (simp add: withdraw_stake_def status_defs)
next
  assume a: "status pool = READY \<and>
    withdraw_stake pool contributor amount ctx = Inr (pool', contributor', coin, ctx', evs)"
  then have w: "withdraw_stake pool contributor amount ctx = Inr (pool', contributor', coin, ctx', evs)"
    by simp
  from withdraw_stake_Inr(9) [OF w]
  show "unat (total_stake pool') = unat (total_stake pool) - unat amount" .
  from withdraw_stake_Inr(13) [OF w] a
  show "status pool' =
        (if unat (total_stake pool') < unat (required_stake pool) then COLLECTING else READY)"
    by simp
qed

theorem withdraw_status_witness:
  "status (example_pool\<lparr>total_stake := 1000, balance := 1100, status := ACTIVE\<rparr>) = ACTIVE \<and>
   withdraw_stake (example_pool\<lparr>total_stake := 1000, balance := 1100, status := ACTIVE\<rparr>)
       example_contributor 1 (tx_of 11 3) =
     Inl (Abort E_WITHDRAWAL_NOT_ALLOWED,
          example_pool\<lparr>total_stake := 1000, balance := 1100, status := ACTIVE\<rparr>,
          example_contributor, tx_of 11 3) \<and>
   status (example_pool\<lparr>total_stake := 1000, balance := 1000, status := READY\<rparr>) = READY \<and>
   withdraw_stake (example_pool\<lparr>total_stake := 1000, balance := 1000, status := READY\<rparr>)
       example_contributor 300 (tx_of 11 3) =
     Inr (example_pool\<lparr>total_stake := 700, balance := 700\<rparr>,
          example_contributor\<lparr>staked_amount := 700\<rparr>, \<lparr>coin_uid = 3, coin_balance = 300\<rparr>,
          tx_of 11 4, [StakeWithdrawn 0 11 300 700]) \<and>
   status (example_pool\<lparr>total_stake := 700, balance := 700\<rparr>) = COLLECTING \<and>
   withdraw_stake (example_pool\<lparr>total_stake := 1500, balance := 1500, status := READY\<rparr>)
       example_contributor 300 (tx_of 11 4) =
     Inr (example_pool\<lparr>total_stake := 1200, balance := 1200, status := READY\<rparr>,
          example_contributor\<lparr>staked_amount := 700\<rparr>, \<lparr>coin_uid = 4, coin_balance = 300\<rparr>,
          tx_of 11 5, [StakeWithdrawn 0 11 300 1200]) \<and>
   status (example_pool\<lparr>total_stake := 1200, balance := 1200, status := READY\<rparr>) = READY"
  using
    withdraw_status [of "example_pool\<lparr>total_stake := 1000, balance := 1100, status := ACTIVE\<rparr>"
      example_contributor 1 "tx_of 11 3"]
    withdraw_status [of "example_pool\<lparr>total_stake := 1000, balance := 1000, status := READY\<rparr>"
      example_contributor 300 "tx_of 11 3" "example_pool\<lparr>total_stake := 700, balance := 700\<rparr>"]
    withdraw_status [of "example_pool\<lparr>total_stake := 1500, balance := 1500, status := READY\<rparr>"
      example_contributor 300 "tx_of 11 4"
      "example_pool\<lparr>total_stake := 1200, balance := 1200, status := READY\<rparr>"]
  by (simp add: example_defs fun_defs status_defs)

text \<open>
  Claim C6.  \<^verbatim>\<open>claim_operator_reward\<close> returns exactly when the pool is \<open>ACTIVE\<close>, the
  sender is the operator, the product \<open>accumulated_reward * operator_reward_pct\<close> fits 64
  bits and the balance holds the operator's share, the product divided by 100.  If the
  share is positive, \<open>accumulated_reward\<close> becomes zero, the balance loses the share, the
  coin returned holds the share and a claim event is emitted; otherwise the coin holds zero
  and the pool is returned as it was.
\<close>

theorem claim_operator_reward_spec:
  "claim_operator_reward pool operator_cap ctx = Inr (pool', coin, ctx', evs) \<longleftrightarrow>
     status pool = ACTIVE \<and> sender ctx = operator pool \<and>
     unat (accumulated_reward pool) * unat (operator_reward_pct pool) < 2 ^ 64 \<and>
     (let operator_share =
            unat (accumulated_reward pool) * unat (operator_reward_pct pool) div 100
      in operator_share \<le> unat (balance pool) \<and>
         coin = \<lparr>coin_uid = fresh ctx, coin_balance = of_nat operator_share\<rparr> \<and>
         ctx' = ctx\<lparr>fresh := Suc (fresh ctx)\<rparr> \<and>
         (if 0 < operator_share
          then pool' = pool\<lparr>accumulated_reward := 0,
                             balance := balance pool - of_nat operator_share\<rparr> \<and>
               evs = [RewardClaimed (pool_uid pool) (operator pool) (of_nat operator_share) True]
          else pool' = pool \<and> evs = []))"
proof -
  have share: "unat (n div 100) = unat (accumulated_reward pool) * unat (operator_reward_pct pool) div 100"
    "of_nat (unat (accumulated_reward pool) * unat (operator_reward_pct pool) div 100) = n div 100"
    if "checked_mul (accumulated_reward pool) (ucast (operator_reward_pct pool)) = Some n" for n
  proof -
    show "unat (n div 100) = unat (accumulated_reward pool) * unat (operator_reward_pct pool) div 100"
      using unat_checked_mul [OF that] by (simp add: unat_div unat_ucast_u8)
    then show "of_nat (unat (accumulated_reward pool) * unat (operator_reward_pct pool) div 100) = n div 100"
      using unat_checked_mul [OF that] by (simp add: word_arith_nat_div [of n 100] unat_ucast_u8)
  qed
  show ?thesis
  proof (cases "checked_mul (accumulated_reward pool) (ucast (operator_reward_pct pool))")
    case None
    then show ?thesis
      by (auto simp: claim_operator_reward_def checked_mul_def unat_ucast_u8 split: if_splits)
  next
    case (Some n)
    then have lt: "unat (accumulated_reward pool) * unat (operator_reward_pct pool) < 2 ^ 64"
      by (simp add: checked_mul_def unat_ucast_u8 split: if_splits)
    note sh = share [OF Some]
    have pos: "0 < n div 100 \<longleftrightarrow>
               0 < unat (accumulated_reward pool) * unat (operator_reward_pct pool) div 100"
      using sh(1) by (simp add: word_less_nat_alt)
    have le: "n div 100 \<le> balance pool \<longleftrightarrow>
              unat (accumulated_reward pool) * unat (operator_reward_pct pool) div 100
                \<le> unat (balance pool)"
      using sh(1) by (simp add: word_le_nat_alt)
    have zero: "n div 100 = 0"
      if "unat (accumulated_reward pool) * unat (operator_reward_pct pool) div 100 = 0"
      using sh(1) that by (simp flip: unat_eq_zero)
    show ?thesis
      unfolding claim_operator_reward_def Let_def Some option.case pos sh(2)
      using lt zero
      by (auto simp: coin_from_balance_def object_new_def balance_split_def balance_zero_def
          Let_def le sh(2))
  qed
qed

text \<open>
  Claim C7 (failure atomicity).  When a public function stops at one of its assertions
  (every abort code of the module: \<open>E_UNAUTHORIZED\<close>, \<open>E_INVALID_STATE\<close>,
  \<open>E_INSUFFICIENT_STAKE\<close>, \<open>E_ZERO_AMOUNT\<close>, \<open>E_WITHDRAWAL_NOT_ALLOWED\<close>), the pool, the
  contributor record and the transaction context are as they were passed in: no field has
  been written, no coin has been taken or made.  In particular \<^verbatim>\<open>record_reward\<close> on a pool
  that is not \<open>ACTIVE\<close> aborts with \<open>E_INVALID_STATE\<close> and returns the pool unchanged.
\<close>

theorem failure_atomicity:
  "(create_pool rs pct ctx = Inl (Abort code, ctx1) \<longrightarrow> ctx1 = ctx) \<and>
   (stake pool coin ctx = Inl (Abort code, pool2, ctx2) \<longrightarrow> pool2 = pool \<and> ctx2 = ctx) \<and>
   (activate_pool pool cap ctx = Inl (Abort code, pool3) \<longrightarrow> pool3 = pool) \<and>
   (record_reward pool coin = Inl (Abort code, pool4) \<longrightarrow> pool4 = pool) \<and>
   (claim_reward pool contributor ctx = Inl (Abort code, pool5, contributor5, ctx5) \<longrightarrow>
      pool5 = pool \<and> contributor5 = contributor \<and> ctx5 = ctx) \<and>
   (claim_operator_reward pool cap ctx = Inl (Abort code, pool6, ctx6) \<longrightarrow>
      pool6 = pool \<and> ctx6 = ctx) \<and>
   (withdraw_stake pool contributor amount ctx = Inl (Abort code, pool7, contributor7, ctx7) \<longrightarrow>
      pool7 = pool \<and> contributor7 = contributor \<and> ctx7 = ctx) \<and>
   (status pool \<noteq> ACTIVE \<longrightarrow> record_reward pool coin = Inl (Abort E_INVALID_STATE, pool))"
proof (intro conjI impI)
  assume "create_pool rs pct ctx = Inl (Abort code, ctx1)"
  then show "ctx1 = ctx"
    by (auto simp: create_pool_def Let_def object_new_def split: if_splits)
next
  assume "stake pool coin ctx = Inl (Abort code, pool2, ctx2)"
  then show "pool2 = pool" "ctx2 = ctx"
    by (auto simp: stake_def Let_def object_new_def split: if_splits option.splits prod.splits)
next
  assume "activate_pool pool cap ctx = Inl (Abort code, pool3)"
  then show "pool3 = pool"
    by (auto simp: activate_pool_def Let_def split: if_splits)
next
  assume "record_reward pool coin = Inl (Abort code, pool4)"
  then show "pool4 = pool"
    by (auto simp: record_reward_def Let_def split: if_splits option.splits)
next
  assume "claim_reward pool contributor ctx = Inl (Abort code, pool5, contributor5, ctx5)"
  then show "pool5 = pool" "contributor5 = contributor" "ctx5 = ctx"
    by (auto simp: claim_reward_def Let_def coin_from_balance_def object_new_def
        split: if_splits option.splits prod.splits)
next
  assume "claim_operator_reward pool cap ctx = Inl (Abort code, pool6, ctx6)"
  then show "pool6 = pool" "ctx6 = ctx"
    by (auto simp: claim_operator_reward_def Let_def coin_from_balance_def object_new_def
        split: if_splits option.splits prod.splits)
next
  assume "withdraw_stake pool contributor amount ctx = Inl (Abort code, pool7, contributor7, ctx7)"
  then show "pool7 = pool" "contributor7 = contributor" "ctx7 = ctx"
    by (auto simp: withdraw_stake_def Let_def coin_from_balance_def object_new_def
        split: if_splits option.splits prod.splits)
next
  assume "status pool \<noteq> ACTIVE"
  then show "record_reward pool coin = Inl (Abort E_INVALID_STATE, pool)"
    by (simp add: record_reward_def)
qed

theorem failure_atomicity_witness:
  "create_pool 0 10 (tx_of 10 0) = Inl (Abort E_ZERO_AMOUNT, tx_of 10 0) \<and>
   stake example_pool (iota 0) (tx_of 11 2) = Inl (Abort E_ZERO_AMOUNT, example_pool, tx_of 11 2) \<and>
   activate_pool example_pool example_cap (tx_of 10 2) = Inl (Abort E_INVALID_STATE, example_pool) \<and>
   status example_pool \<noteq> ACTIVE \<and>
   record_reward example_pool (iota 100) = Inl (Abort E_INVALID_STATE, example_pool) \<and>
   claim_reward (example_pool\<lparr>total_stake := 1000, balance := 1000, status := ACTIVE\<rparr>)
       example_contributor (tx_of 12 3) =
     Inl (Abort E_UNAUTHORIZED,
          example_pool\<lparr>total_stake := 1000, balance := 1000, status := ACTIVE\<rparr>,
          example_contributor, tx_of 12 3) \<and>
   claim_operator_reward (example_pool\<lparr>total_stake := 1000, balance := 1000, status := ACTIVE\<rparr>)
       example_cap (tx_of 12 3) =
     Inl (Abort E_UNAUTHORIZED,
          example_pool\<lparr>total_stake := 1000, balance := 1000, status := ACTIVE\<rparr>, tx_of 12 3) \<and>
   withdraw_stake (example_pool\<lparr>total_stake := 1000, balance := 1000, status := READY\<rparr>)
       example_contributor 2000 (tx_of 11 3) =
     Inl (Abort E_INSUFFICIENT_STAKE,
          example_pool\<lparr>total_stake := 1000, balance := 1000, status := READY\<rparr>,
          example_contributor, tx_of 11 3)"
proof -
  let ?active = "example_pool\<lparr>total_stake := 1000, balance := 1000, status := ACTIVE\<rparr>"
  let ?ready = "example_pool\<lparr>total_stake := 1000, balance := 1000, status := READY\<rparr>"
  have e1: "create_pool 0 10 (tx_of 10 0) = Inl (Abort E_ZERO_AMOUNT, tx_of 10 0)"
    by (simp add: example_defs fun_defs status_defs)
  have e2: "stake example_pool (iota 0) (tx_of 11 2) =
      Inl (Abort E_ZERO_AMOUNT, example_pool, tx_of 11 2)"
    by (simp add: example_defs fun_defs status_defs)
  have e3: "activate_pool example_pool example_cap (tx_of 10 2) =
      Inl (Abort E_INVALID_STATE, example_pool)"
    by (simp add: example_defs fun_defs status_defs)
  have e4: "status example_pool \<noteq> ACTIVE"
    by (simp add: example_defs status_defs)
  have e5: "claim_reward ?active example_contributor (tx_of 12 3) =
      Inl (Abort E_UNAUTHORIZED, ?active, example_contributor, tx_of 12 3)"
    by (simp add: example_defs fun_defs status_defs)
  have e6: "claim_operator_reward ?active example_cap (tx_of 12 3) =
      Inl (Abort E_UNAUTHORIZED, ?active, tx_of 12 3)"
    by (simp add: example_defs fun_defs status_defs)
  have e7: "withdraw_stake ?ready example_contributor 2000 (tx_of 11 3) =
      Inl (Abort E_INSUFFICIENT_STAKE, ?ready, example_contributor, tx_of 11 3)"
    by (simp add: example_defs fun_defs status_defs)
  note c1 = failure_atomicity [THEN conjunct1, THEN mp, OF e1]
  note c2 = failure_atomicity [THEN conjunct2, THEN conjunct1, THEN mp, OF e2]
  note c3 = failure_atomicity [THEN conjunct2, THEN conjunct2, THEN conjunct1, THEN mp, OF e3]
  note c5 = failure_atomicity [THEN conjunct2, THEN conjunct2, THEN conjunct2, THEN conjunct2,
      THEN conjunct1, THEN mp, OF e5]
  note c6 = failure_atomicity [THEN conjunct2, THEN conjunct2, THEN conjunct2, THEN conjunct2,
      THEN conjunct2, THEN conjunct1, THEN mp, OF e6]
  note c7 = failure_atomicity [THEN conjunct2, THEN conjunct2, THEN conjunct2, THEN conjunct2,
      THEN conjunct2, THEN conjunct2, THEN conjunct1, THEN mp, OF e7]
  note c8 = failure_atomicity [THEN conjunct2, THEN conjunct2, THEN conjunct2, THEN conjunct2,
      THEN conjunct2, THEN conjunct2, THEN conjunct2, THEN mp, OF e4, of "iota 100"]
  from c1 c2 c3 c5 c6 c7 show ?thesis
    using e1 e2 e3 e4 e5 e6 e7 c8 by simp
qed

text \<open>
  Claim C8, as amended.  \<^verbatim>\<open>create_pool\<close> aborts with \<open>E_ZERO_AMOUNT\<close> (1004, the code
  of every zero-amount failure of the module; there is no code for an invalid argument)
  whenever \<open>required_stake\<close> is zero or \<open>operator_reward_pct\<close> is above 100, and has written
  nothing then.  Otherwise it returns a pool with the two parameters, zero \<open>total_stake\<close>,
  \<open>accumulated_reward\<close>, \<open>reward_per_stake\<close> and balance, status \<open>COLLECTING\<close> and the
  sender as operator, with a capability whose \<open>pool_id\<close> is the identifier of that pool.
\<close>

theorem create_pool_spec:
  "(required_stake' = 0 \<or> 100 < operator_reward_pct' \<longrightarrow>
      create_pool required_stake' operator_reward_pct' ctx = Inl (Abort E_ZERO_AMOUNT, ctx)) \<and>
   (0 < required_stake' \<and> operator_reward_pct' \<le> 100 \<longrightarrow>
      (\<exists>pool cap ctx' evs.
         create_pool required_stake' operator_reward_pct' ctx = Inr (pool, cap, ctx', evs) \<and>
         required_stake pool = required_stake' \<and>
         operator_reward_pct pool = operator_reward_pct' \<and>
         total_stake pool = 0 \<and> accumulated_reward pool = 0 \<and>
         reward_per_stake pool = 0 \<and> balance pool = 0 \<and>
         status pool = COLLECTING \<and> operator pool = sender ctx \<and>
         cap_pool_id cap = pool_uid pool))"
  by (auto simp: create_pool_def Let_def object_new_def balance_zero_def word_gt_0 not_le)

theorem create_pool_spec_witness:
  "create_pool 0 10 (tx_of 10 0) = Inl (Abort E_ZERO_AMOUNT, tx_of 10 0) \<and>
   create_pool 1000 101 (tx_of 10 0) = Inl (Abort E_ZERO_AMOUNT, tx_of 10 0) \<and>
   create_pool 1000 10 (tx_of 10 0) =
     Inr (example_pool, example_cap, tx_of 10 2, [PoolCreated 0 10 1000 10]) \<and>
   total_stake example_pool = 0 \<and> accumulated_reward example_pool = 0 \<and>
   reward_per_stake example_pool = 0 \<and> balance example_pool = 0 \<and>
   status example_pool = COLLECTING \<and> operator example_pool = sender (tx_of 10 0) \<and>
   cap_pool_id example_cap = pool_uid example_pool"
  using create_pool_spec [of 0 10 "tx_of 10 0"] create_pool_spec [of 1000 101 "tx_of 10 0"]
    create_pool_spec [of 1000 10 "tx_of 10 0"]
  by (simp add: example_defs fun_defs status_defs)

text \<open>
  The claim as written names an error kind apart from the zero-amount one.  The module has
  none: a percentage above 100 is refused with the code a zero deposit is refused with.
\<close>

theorem create_pool_error_kind_counterexample:
  "create_pool 1000 101 (tx_of 10 0) = Inl (Abort E_ZERO_AMOUNT, tx_of 10 0) \<and>
   stake example_pool (iota 0) (tx_of 11 2) = Inl (Abort E_ZERO_AMOUNT, example_pool, tx_of 11 2) \<and>
   E_ZERO_AMOUNT = 1004"
  by (simp add: example_defs fun_defs status_defs E_ZERO_AMOUNT_def)

subsection \<open>Histories\<close>












end
